theory Spec2Isabelle
  imports Complex_Main
begin


section \<open>ommprotocol.io: exceptions and string helpers\<close>

text \<open>
  The module \<^verbatim>\<open>src/ommprotocol/io.py\<close> is Python, read here with the semantics of
  Python 3. Every exception the modelled code can raise is a value of \<open>exn\<close>; a
  function that can raise returns \<open>exn + 'a\<close> with \<open>Inl\<close> for the raised
  exception. The string carried is the message where the source fixes it, a fixed
  wording of the interpreter's message otherwise. What the module calls in other
  libraries (OpenMM, ParmEd, openmoltools, \<^verbatim>\<open>open\<close>, \<^verbatim>\<open>float\<close>) is passed to the
  modelled function as a parameter that may raise as well.
\<close>

datatype exn =
    AttributeError string
  | KeyError string
  | NotImplementedError string
  | IOError string
  | TypeError string
  | ValueError string
  | NameError string
  | IndexError string
  | ExternalError string

subsection \<open>\<^verbatim>\<open>os.path.splitext\<close> (posix) and \<^verbatim>\<open>str(i)\<close>\<close>

text \<open>
  \<^verbatim>\<open>p.rfind(c)\<close>: the index of the last occurrence of \<open>c\<close>, or \<open>-1\<close>.
\<close>

fun rfind_from :: "char \<Rightarrow> string \<Rightarrow> int \<Rightarrow> int \<Rightarrow> int" where
  "rfind_from c [] i found = found"
| "rfind_from c (x # xs) i found = rfind_from c xs (i + 1) (if x = c then i else found)"

definition rfind :: "string \<Rightarrow> char \<Rightarrow> int" where
  "rfind p c = rfind_from c p 0 (- 1)"

text \<open>
  The standard library's \<^verbatim>\<open>splitext\<close> (sep \<^verbatim>\<open>/\<close>, no altsep, extsep \<^verbatim>\<open>.\<close>):
  \<^verbatim>\<open>
    sepIndex = p.rfind(sep)
    dotIndex = p.rfind(extsep)
    if dotIndex > sepIndex:
        filenameIndex = sepIndex + 1
        while filenameIndex < dotIndex:
            if p[filenameIndex:filenameIndex+1] != extsep:
                return p[:dotIndex], p[dotIndex:]
            filenameIndex += 1
    return p, p[:0]
  \<close>
  The loop returns the split as soon as one character of the file name before the last
  dot is not a dot; \<open>list_ex\<close> over that slice says the same.
\<close>

definition splitext :: "string \<Rightarrow> string \<times> string" where
  "splitext p =
     (let sepIndex = rfind p (CHR ''/'');
          dotIndex = rfind p (CHR ''.'')
      in if dotIndex > sepIndex \<and>
            list_ex (\<lambda>ch. ch \<noteq> CHR ''.'')
              (take (nat (dotIndex - (sepIndex + 1))) (drop (nat (sepIndex + 1)) p))
         then (take (nat dotIndex) p, drop (nat dotIndex) p)
         else (p, []))"

definition digit_char :: "nat \<Rightarrow> char" where
  "digit_char d = ''0123456789'' ! d"

fun str_nat :: "nat \<Rightarrow> string" where
  "str_nat n = (if n < 10 then [digit_char n] else str_nat (n div 10) @ [digit_char (n mod 10)])"

text \<open>\<^verbatim>\<open>str(i)\<close> of a Python int: decimal digits, a minus sign when negative.\<close>

definition str_int :: "int \<Rightarrow> string" where
  "str_int i = (if i < 0 then CHR ''-'' # str_nat (nat (- i)) else str_nat (nat i))"

section \<open>\<^verbatim>\<open>assert_not_exists\<close>\<close>

text \<open>
  \<^verbatim>\<open>
  def assert_not_exists(path):
      name, ext = os.path.splitext(path)
      i = 1
      while os.path.exists(path):
          path = '{}.{}{}'.format(name, i, ext)
          i += 1
      return path
  \<close>
  The file system is the set \<open>fs\<close> of the paths that exist; the loop only reads it.
  The loop has no bound of its own, so it is a partial function: not returning is the
  value \<open>None\<close>.
\<close>

partial_function (option) assert_not_exists_loop ::
  "string set \<Rightarrow> string \<Rightarrow> string \<Rightarrow> string \<Rightarrow> int \<Rightarrow> string option" where
  "assert_not_exists_loop fs name ext path i =
     (if path \<in> fs
      then assert_not_exists_loop fs name ext (name @ ''.'' @ str_int i @ ext) (i + 1)
      else Some path)"

definition assert_not_exists :: "string set \<Rightarrow> string \<Rightarrow> string option" where
  "assert_not_exists fs path =
     (let (name, ext) = splitext path in assert_not_exists_loop fs name ext path 1)"

text \<open>
  The sequence of names of the specification: the path itself, then
  \<^verbatim>\<open>name.1.ext\<close>, \<^verbatim>\<open>name.2.ext\<close>, ... with \<open>name\<close> and \<open>ext\<close> split from the path.
\<close>

definition name_sequence :: "string \<Rightarrow> nat \<Rightarrow> string" where
  "name_sequence path k =
     (if k = 0 then path
      else fst (splitext path) @ ''.'' @ str_int (int k) @ snd (splitext path))"

section \<open>Values, \<^verbatim>\<open>isinstance\<close> and \<^verbatim>\<open>validate\<close>\<close>

text \<open>
  The Python objects the containers hold. A \<^verbatim>\<open>simtk.unit.Quantity\<close> is a nested list
  of numbers tagged with a unit; the numbers are Python ints or floats, and the type of
  floats is a parameter \<open>'f\<close> (the module does no arithmetic on them). A topology and
  an object of any other class are opaque: the string names the object, respectively
  its class. \<^verbatim>\<open>u.angstrom\<close> and \<^verbatim>\<open>u.angstroms\<close> are the same unit.
\<close>

datatype 'f pynum = PyInt int | PyFloat 'f

datatype py_unit = angstroms | angstroms_per_picosecond

datatype pyclass = Topology | Quantity | NoneType | OtherClass string

datatype 'f pyval =
    PyNone
  | TopologyObj string
  | QuantityObj "'f pynum list list" py_unit
  | OtherObj string

fun class_of :: "'f pyval \<Rightarrow> pyclass" where
  "class_of PyNone = NoneType"
| "class_of (TopologyObj n) = Topology"
| "class_of (QuantityObj v un) = Quantity"
| "class_of (OtherObj c) = OtherClass c"

text \<open>
  The second argument of \<^verbatim>\<open>isinstance\<close> in this module is always a tuple; the module
  writes \<^verbatim>\<open>(Topology, None)\<close> and \<^verbatim>\<open>(u.Quantity, None)\<close>, whose second element is
  the object \<^verbatim>\<open>None\<close>, not a class. The interpreter tries the elements from the left,
  answers \<^verbatim>\<open>True\<close> at the first class the object is an instance of, and raises
  \<^verbatim>\<open>TypeError\<close> when it reaches an element that is not a class (the wording of the
  message differs between versions of the interpreter; one of them stands here). The
  classes of the model have no subclasses.
\<close>

datatype classinfo = Class pyclass | NoneValue

fun isinstance :: "'f pyval \<Rightarrow> classinfo list \<Rightarrow> exn + bool" where
  "isinstance obj [] = Inr False"
| "isinstance obj (Class c # rest) = (if class_of obj = c then Inr True else isinstance obj rest)"
| "isinstance obj (NoneValue # rest) =
     Inl (TypeError ''isinstance() arg 2 must be a type or tuple of types'')"

text \<open>
  \<^verbatim>\<open>
  def validate(object_, type_):
      if isinstance(object_, type_):
          return object_
      raise TypeError('{} must be instance of {}'.format(object_, type_))
  \<close>
  The message of the \<^verbatim>\<open>raise\<close> is kept as its template.
\<close>

definition validate :: "'f pyval \<Rightarrow> classinfo list \<Rightarrow> exn + 'f pyval" where
  "validate obj types =
     (case isinstance obj types of
        Inl e \<Rightarrow> Inl e
      | Inr b \<Rightarrow> if b then Inr obj else Inl (TypeError ''{} must be instance of {}''))"

section \<open>\<^verbatim>\<open>InputContainer\<close>\<close>

text \<open>
  The four private attributes \<^verbatim>\<open>_topology\<close>, \<^verbatim>\<open>_positions\<close>, \<^verbatim>\<open>_velocities\<close> and
  \<^verbatim>\<open>_box\<close>. A property setter validates and then stores; when \<open>validate\<close> raises,
  nothing has been stored, so the result is the exception alone and the object is as
  before.
\<close>

record 'f InputContainer =
  priv_topology :: "'f pyval"
  priv_positions :: "'f pyval"
  priv_velocities :: "'f pyval"
  priv_box :: "'f pyval"

definition set_topology ::
  "'f pyval \<Rightarrow> ('f, 'z) InputContainer_scheme \<Rightarrow> exn + ('f, 'z) InputContainer_scheme" where
  "set_topology obj self =
     (case validate obj [Class Topology, NoneValue] of
        Inl e \<Rightarrow> Inl e
      | Inr v \<Rightarrow> Inr (self\<lparr>priv_topology := v\<rparr>))"

definition set_positions ::
  "'f pyval \<Rightarrow> ('f, 'z) InputContainer_scheme \<Rightarrow> exn + ('f, 'z) InputContainer_scheme" where
  "set_positions obj self =
     (case validate obj [Class Quantity, NoneValue] of
        Inl e \<Rightarrow> Inl e
      | Inr v \<Rightarrow> Inr (self\<lparr>priv_positions := v\<rparr>))"

definition set_velocities ::
  "'f pyval \<Rightarrow> ('f, 'z) InputContainer_scheme \<Rightarrow> exn + ('f, 'z) InputContainer_scheme" where
  "set_velocities obj self =
     (case validate obj [Class Quantity, NoneValue] of
        Inl e \<Rightarrow> Inl e
      | Inr v \<Rightarrow> Inr (self\<lparr>priv_velocities := v\<rparr>))"

definition set_box ::
  "'f pyval \<Rightarrow> ('f, 'z) InputContainer_scheme \<Rightarrow> exn + ('f, 'z) InputContainer_scheme" where
  "set_box obj self =
     (case validate obj [Class Quantity, NoneValue] of
        Inl e \<Rightarrow> Inl e
      | Inr v \<Rightarrow> Inr (self\<lparr>priv_box := v\<rparr>))"

text \<open>
  \<^verbatim>\<open>
  def __init__(self, topology=None, positions=None, velocities=None, box=None, **kwargs):
      self._topology = None
      self._positions = None
      self._velocities = None
      self._box = None
      self.topology = topology
      self.positions = positions
      self.velocities = velocities
      self.box = box
  \<close>
  An argument the caller leaves out is \<open>PyNone\<close>.
\<close>

definition InputContainer_init ::
  "'f pyval \<Rightarrow> 'f pyval \<Rightarrow> 'f pyval \<Rightarrow> 'f pyval \<Rightarrow> exn + 'f InputContainer" where
  "InputContainer_init topology positions velocities box =
     (case set_topology topology
             \<lparr>priv_topology = PyNone, priv_positions = PyNone,
              priv_velocities = PyNone, priv_box = PyNone\<rparr> of
        Inl e \<Rightarrow> Inl e
      | Inr s1 \<Rightarrow>
     (case set_positions positions s1 of
        Inl e \<Rightarrow> Inl e
      | Inr s2 \<Rightarrow>
     (case set_velocities velocities s2 of
        Inl e \<Rightarrow> Inl e
      | Inr s3 \<Rightarrow> set_box box s3)))"

definition has_topology :: "('f, 'z) InputContainer_scheme \<Rightarrow> bool" where
  "has_topology self = (priv_topology self \<noteq> PyNone)"

definition has_positions :: "('f, 'z) InputContainer_scheme \<Rightarrow> bool" where
  "has_positions self = (priv_positions self \<noteq> PyNone)"

definition has_velocities :: "('f, 'z) InputContainer_scheme \<Rightarrow> bool" where
  "has_velocities self = (priv_velocities self \<noteq> PyNone)"

definition has_box :: "('f, 'z) InputContainer_scheme \<Rightarrow> bool" where
  "has_box self = (priv_box self \<noteq> PyNone)"

section \<open>\<^verbatim>\<open>SystemHandler\<close>\<close>

text \<open>
  The master handle is the parser object of the external library the container was
  loaded from. Of these objects the module reads the topology, the positions, the unit
  cell, and the attributes it attaches itself: \<^verbatim>\<open>forcefield\<close> on a \<^verbatim>\<open>PDBFile\<close> and
  \<^verbatim>\<open>parmset\<close> on a \<^verbatim>\<open>CharmmPsfFile\<close>. An attribute an object may lack is an
  \<open>option\<close>: \<^verbatim>\<open>hasattr\<close> is \<open>\<noteq> None\<close> and \<^verbatim>\<open>getattr(pdb, 'velocities', None)\<close>
  reads \<open>pdb_velocities\<close>. \<open>pdb_unit_cell\<close> is what
  \<^verbatim>\<open>pdb.topology.getUnitCellDimensions()\<close> returns. The types \<open>'ff\<close> (force field),
  \<open>'ps\<close> (parameter set) and \<open>'sys\<close> (system) are the external library's.
\<close>

record ('f, 'ff) PDBFile =
  pdb_topology :: "'f pyval"
  pdb_unit_cell :: "'f pyval"
  pdb_positions :: "'f pyval"
  pdb_velocities :: "'f pyval option"
  forcefield :: "'ff option"

record 'f AmberPrmtopFile =
  prmtop_topology :: "'f pyval"

record ('f, 'ps) CharmmPsfFile =
  psf_topology :: "'f pyval"
  parmset :: "'ps option"

datatype ('f, 'ff, 'ps) pymaster =
    PDBFileObj "('f, 'ff) PDBFile"
  | AmberPrmtopFileObj "'f AmberPrmtopFile"
  | CharmmPsfFileObj "('f, 'ps) CharmmPsfFile"
  | OtherMaster string

record ('f, 'ff, 'ps) SystemHandler = "'f InputContainer" +
  master :: "('f, 'ff, 'ps) pymaster option"
  priv_path :: "string option"

text \<open>
  \<^verbatim>\<open>
  def __init__(self, master=None, **kwargs):
      InputContainer.__init__(self, **kwargs)
      self.master = master
      self._path = kwargs.get('path')
  \<close>
\<close>

definition SystemHandler_init ::
  "('f, 'ff, 'ps) pymaster option \<Rightarrow> 'f pyval \<Rightarrow> 'f pyval \<Rightarrow> 'f pyval \<Rightarrow> 'f pyval \<Rightarrow>
   string option \<Rightarrow> exn + ('f, 'ff, 'ps) SystemHandler" where
  "SystemHandler_init m topology positions velocities box path =
     (case InputContainer_init topology positions velocities box of
        Inl e \<Rightarrow> Inl e
      | Inr c \<Rightarrow>
          Inr \<lparr>priv_topology = priv_topology c, priv_positions = priv_positions c,
               priv_velocities = priv_velocities c, priv_box = priv_box c,
               master = m, priv_path = path\<rparr>)"

text \<open>
  \<^verbatim>\<open>
  def create_system(self, system_options=None):
      if self.master is None:
          raise ValueError('This instance is not able to create systems.')
      if system_options is None:
          system_options = {}
      if isinstance(self.master, PDBFile):
          if not hasattr(self.master, 'forcefield'):
              raise ValueError('PDB topology files must be instanciated with forcefield paths.')
          return self.master.forcefield.createSystem(self.topology, **system_options)
      if isinstance(self.master, AmberPrmtopFile):
          return self.master.createSystem(**system_options)
      if isinstance(self.master, CharmmPsfFile):
          if not hasattr(self.master, 'parmset'):
              raise ValueError('PSF topology files must be instanciated with Charmm parameters.')
          return self.master.createSystem(self.master.parmset, **system_options)
  \<close>
  The three \<^verbatim>\<open>createSystem\<close> methods are the external library's and are parameters.
  The result is \<open>Some\<close> system, or \<open>None\<close> when the body ends without a
  \<^verbatim>\<open>return\<close>.
\<close>

definition create_system ::
  "('ff \<Rightarrow> 'f pyval \<Rightarrow> (string \<times> 'v) list \<Rightarrow> exn + 'sys) \<Rightarrow>
   ('f AmberPrmtopFile \<Rightarrow> (string \<times> 'v) list \<Rightarrow> exn + 'sys) \<Rightarrow>
   (('f, 'ps) CharmmPsfFile \<Rightarrow> 'ps \<Rightarrow> (string \<times> 'v) list \<Rightarrow> exn + 'sys) \<Rightarrow>
   ('f, 'ff, 'ps) SystemHandler \<Rightarrow> (string \<times> 'v) list option \<Rightarrow> exn + 'sys option" where
  "create_system forcefield_createSystem prmtop_createSystem psf_createSystem self system_options =
     (case master self of
        None \<Rightarrow> Inl (ValueError ''This instance is not able to create systems.'')
      | Some m \<Rightarrow>
          (let opts = (case system_options of None \<Rightarrow> [] | Some given \<Rightarrow> given) in
           case m of
             PDBFileObj pdb \<Rightarrow>
               (case forcefield pdb of
                  None \<Rightarrow>
                    Inl (ValueError
                      ''PDB topology files must be instanciated with forcefield paths.'')
                | Some ff \<Rightarrow>
                    (case forcefield_createSystem ff (priv_topology self) opts of
                       Inl e \<Rightarrow> Inl e
                     | Inr sys \<Rightarrow> Inr (Some sys)))
           | AmberPrmtopFileObj prmtop \<Rightarrow>
               (case prmtop_createSystem prmtop opts of
                  Inl e \<Rightarrow> Inl e
                | Inr sys \<Rightarrow> Inr (Some sys))
           | CharmmPsfFileObj psf \<Rightarrow>
               (case parmset psf of
                  None \<Rightarrow>
                    Inl (ValueError
                      ''PSF topology files must be instanciated with Charmm parameters.'')
                | Some ps \<Rightarrow>
                    (case psf_createSystem psf ps opts of
                       Inl e \<Rightarrow> Inl e
                     | Inr sys \<Rightarrow> Inr (Some sys)))
           | OtherMaster c \<Rightarrow> Inr None))"

subsection \<open>\<^verbatim>\<open>process_forcefield\<close> and \<^verbatim>\<open>SystemHandler.from_pdb\<close>\<close>

definition endswith :: "string \<Rightarrow> string \<Rightarrow> bool" where
  "endswith s suffix =
     (length suffix \<le> length s \<and> drop (length s - length suffix) s = suffix)"

text \<open>
  A generator consumed by a star argument runs to its end before the call, and stops at
  the first exception: \<open>map_exn\<close>.
\<close>

fun map_exn :: "('a \<Rightarrow> exn + 'b) \<Rightarrow> 'a list \<Rightarrow> exn + 'b list" where
  "map_exn f [] = Inr []"
| "map_exn f (x # xs) =
     (case f x of
        Inl e \<Rightarrow> Inl e
      | Inr y \<Rightarrow> (case map_exn f xs of Inl e \<Rightarrow> Inl e | Inr ys \<Rightarrow> Inr (y # ys)))"

text \<open>
  \<^verbatim>\<open>
  def process_forcefield(*forcefields):
      for forcefield in forcefields:
          if forcefield.endswith('.frcmod'):
              yield create_ffxml_file(forcefield)
          else:
              yield forcefield
  \<close>
  \<^verbatim>\<open>create_ffxml_file\<close> is openmoltools' and is a parameter.
\<close>

definition process_forcefield ::
  "(string \<Rightarrow> exn + string) \<Rightarrow> string list \<Rightarrow> exn + string list" where
  "process_forcefield create_ffxml_file forcefields =
     map_exn (\<lambda>ff. if endswith ff ''.frcmod'' then create_ffxml_file ff else Inr ff)
       forcefields"

text \<open>
  \<^verbatim>\<open>
  def from_pdb(cls, path, forcefields=None):
      pdb = PDBFile(path)
      box = pdb.topology.getUnitCellDimensions()
      positions = pdb.positions
      velocities = getattr(pdb, 'velocities', None)
      if not forcefields:
          forcefields = ommprotocol.FORCEFIELDS
          print('INFO: Forcefields for PDB not specified. Using default:\n ',
                ', '.join(forcefields))
      pdb.forcefield = ForceField(*process_forcefield(*forcefields))
      return cls(master=pdb, topology=pdb.topology, positions=positions,
                 velocities=velocities, box=box, path=path)
  \<close>
  \<^verbatim>\<open>PDBFile\<close>, \<^verbatim>\<open>ForceField\<close> and the list \<^verbatim>\<open>ommprotocol.FORCEFIELDS\<close> (a module
  that is not among the sources) are parameters. What \<^verbatim>\<open>print\<close> writes is left out.
\<close>

definition from_pdb ::
  "(string \<Rightarrow> exn + ('f, 'ff) PDBFile) \<Rightarrow> string list \<Rightarrow> (string list \<Rightarrow> exn + 'ff) \<Rightarrow>
   (string \<Rightarrow> exn + string) \<Rightarrow> string \<Rightarrow> string list option \<Rightarrow>
   exn + ('f, 'ff, 'ps) SystemHandler" where
  "from_pdb PDBFile_new FORCEFIELDS ForceField_new create_ffxml_file path forcefields =
     (case PDBFile_new path of
        Inl e \<Rightarrow> Inl e
      | Inr pdb \<Rightarrow>
          (let box = pdb_unit_cell pdb;
               positions = pdb_positions pdb;
               velocities = (case pdb_velocities pdb of None \<Rightarrow> PyNone | Some v \<Rightarrow> v);
               chosen = (case forcefields of
                           None \<Rightarrow> FORCEFIELDS
                         | Some given \<Rightarrow> if given = [] then FORCEFIELDS else given)
           in case process_forcefield create_ffxml_file chosen of
                Inl e \<Rightarrow> Inl e
              | Inr files \<Rightarrow>
                  (case ForceField_new files of
                     Inl e \<Rightarrow> Inl e
                   | Inr ff \<Rightarrow>
                       SystemHandler_init
                         (Some (PDBFileObj (pdb\<lparr>forcefield := Some ff\<rparr>)))
                         (pdb_topology pdb) positions velocities box (Some path))))"

subsection \<open>\<^verbatim>\<open>SystemHandler.from_psf\<close>\<close>

text \<open>
  \<^verbatim>\<open>
  def from_psf(cls, path, charmm_parameters=None):
      psf = CharmmPsfFile(path)
      if charmm_parameters is None:
          raise ValueError('ERROR: PSF files require charmm_parameters')
      psf.parmset = CharmmParameterSet(*charmm_parameters)
      psf.loadParameters(psf.parmset)
      return cls(master=psf, topology=psf.topology, path=path)
  \<close>
  \<^verbatim>\<open>CharmmPsfFile\<close>, \<^verbatim>\<open>CharmmParameterSet\<close> and \<^verbatim>\<open>loadParameters\<close> (which
  changes the object it is called on) are parameters.
\<close>

definition from_psf ::
  "(string \<Rightarrow> exn + ('f, 'ps) CharmmPsfFile) \<Rightarrow> (string list \<Rightarrow> exn + 'ps) \<Rightarrow>
   (('f, 'ps) CharmmPsfFile \<Rightarrow> 'ps \<Rightarrow> exn + ('f, 'ps) CharmmPsfFile) \<Rightarrow>
   string \<Rightarrow> string list option \<Rightarrow> exn + ('f, 'ff, 'ps) SystemHandler" where
  "from_psf CharmmPsfFile_new CharmmParameterSet_new loadParameters path charmm_parameters =
     (case CharmmPsfFile_new path of
        Inl e \<Rightarrow> Inl e
      | Inr psf \<Rightarrow>
          (case charmm_parameters of
             None \<Rightarrow> Inl (ValueError ''ERROR: PSF files require charmm_parameters'')
           | Some files \<Rightarrow>
               (case CharmmParameterSet_new files of
                  Inl e \<Rightarrow> Inl e
                | Inr ps \<Rightarrow>
                    (case loadParameters (psf\<lparr>parmset := Some ps\<rparr>) ps of
                       Inl e \<Rightarrow> Inl e
                     | Inr loaded \<Rightarrow>
                         SystemHandler_init (Some (CharmmPsfFileObj loaded))
                           (psf_topology loaded) PyNone PyNone PyNone (Some path)))))"

section \<open>\<^verbatim>\<open>Restart.from_rst\<close>\<close>

text \<open>
  Indexing with a non-negative constant: \<^verbatim>\<open>IndexError\<close> out of range.
\<close>

definition getitem :: "'a list \<Rightarrow> nat \<Rightarrow> exn + 'a" where
  "getitem xs i = (if i < length xs then Inr (xs ! i) else Inl (IndexError ''index out of range''))"

text \<open>
  The object \<^verbatim>\<open>parmed.load_file\<close> returns for a restart file: the coordinates and
  velocities by frame, the cell lengths, and the two presence flags.
\<close>

record 'f Rst7 =
  rst_coordinates :: "'f pynum list list list"
  rst_hasvels :: bool
  rst_velocities :: "'f pynum list list list"
  rst_hasbox :: bool
  rst_cell_lengths :: "'f pynum list"

text \<open>
  \<^verbatim>\<open>
  def from_rst(cls, path):
      positions, velocities, box = None, None, None
      rst = parmed_load_file(path)
      positions = u.Quantity(rst.coordinates[0], unit=u.angstrom)
      if rst.hasvels:
          velocities = u.Quantity(rst.velocities[0], unit=u.angstrom/u.picosecond)
      if rst.hasbox:
          vectors = [[rst.cell_lengths[0], 0, 0],
                     [0, rst.cell_lengths[1], 0],
                     [0, 0, rst.cell_lengths[2]]]
          box = u.Quantity(vectors, unit=u.angstrom)
      return cls(positions=positions, velocities=velocities, box=box)
  \<close>
  \<^verbatim>\<open>Restart\<close> defines no \<^verbatim>\<open>__init__\<close>, and neither does \<^verbatim>\<open>MultiFormatLoader\<close>:
  \<^verbatim>\<open>cls(...)\<close> runs \<^verbatim>\<open>InputContainer.__init__\<close> with the topology left out.
\<close>

definition from_rst ::
  "(string \<Rightarrow> exn + 'f Rst7) \<Rightarrow> string \<Rightarrow> exn + 'f InputContainer" where
  "from_rst parmed_load_file path =
     (case parmed_load_file path of
        Inl e \<Rightarrow> Inl e
      | Inr rst \<Rightarrow>
     (case getitem (rst_coordinates rst) 0 of
        Inl e \<Rightarrow> Inl e
      | Inr frame \<Rightarrow>
     (case (if rst_hasvels rst
            then (case getitem (rst_velocities rst) 0 of
                    Inl e \<Rightarrow> Inl e
                  | Inr v \<Rightarrow> Inr (QuantityObj v angstroms_per_picosecond))
            else Inr PyNone) of
        Inl e \<Rightarrow> Inl e
      | Inr velocities \<Rightarrow>
     (case (if rst_hasbox rst
            then (case getitem (rst_cell_lengths rst) 0 of
                    Inl e \<Rightarrow> Inl e
                  | Inr a \<Rightarrow>
                 (case getitem (rst_cell_lengths rst) 1 of
                    Inl e \<Rightarrow> Inl e
                  | Inr b \<Rightarrow>
                 (case getitem (rst_cell_lengths rst) 2 of
                    Inl e \<Rightarrow> Inl e
                  | Inr c \<Rightarrow>
                      Inr (QuantityObj
                             [[a, PyInt 0, PyInt 0], [PyInt 0, b, PyInt 0], [PyInt 0, PyInt 0, c]]
                             angstroms))))
            else Inr PyNone) of
        Inl e \<Rightarrow> Inl e
      | Inr box \<Rightarrow>
          InputContainer_init PyNone (QuantityObj frame angstroms) velocities box))))"

section \<open>\<^verbatim>\<open>BoxVectors.from_xsc\<close>\<close>

text \<open>
  \<^verbatim>\<open>s.split()\<close> cuts at runs of whitespace and yields no empty string. The whitespace
  characters below code point 256 are the six of ASCII, the four separators
  \<open>0x1c\<close>--\<open>0x1f\<close>, \<open>0x85\<close> and \<open>0xa0\<close>.
\<close>

definition isspace :: "char \<Rightarrow> bool" where
  "isspace ch =
     (ch \<in> set [CHR 0x09, CHR 0x0A, CHR 0x0B, CHR 0x0C, CHR 0x0D, CHR 0x20,
                CHR 0x1C, CHR 0x1D, CHR 0x1E, CHR 0x1F, CHR 0x85, CHR 0xA0])"

fun split_from :: "string \<Rightarrow> string \<Rightarrow> string list" where
  "split_from word [] = (if word = [] then [] else [word])"
| "split_from word (ch # rest) =
     (if isspace ch
      then (if word = [] then split_from [] rest else word # split_from [] rest)
      else split_from (word @ [ch]) rest)"

definition split :: "string \<Rightarrow> string list" where
  "split s = split_from [] s"

text \<open>
  \<^verbatim>\<open>namedtuple(typename, field_names)\<close> raises \<^verbatim>\<open>ValueError\<close> unless every field name
  is an identifier and no keyword, none starts with an underscore and none occurs
  twice. Identifiers are read as ASCII here: a name with a letter outside ASCII, which
  Python accepts, is refused by \<open>isidentifier\<close>, so what is proved of \<open>parse\<close> is
  proved for names that \<open>valid_field_names\<close> accepts.
\<close>

definition isalpha :: "char \<Rightarrow> bool" where
  "isalpha ch =
     (ch \<in> set ''abcdefghijklmnopqrstuvwxyzABCDEFGHIJKLMNOPQRSTUVWXYZ'')"

definition isdigit :: "char \<Rightarrow> bool" where
  "isdigit ch = (ch \<in> set ''0123456789'')"

definition isidentifier :: "string \<Rightarrow> bool" where
  "isidentifier s =
     (case s of
        [] \<Rightarrow> False
      | ch # rest \<Rightarrow>
          (isalpha ch \<or> ch = CHR ''_'') \<and>
          list_all (\<lambda>x. isalpha x \<or> isdigit x \<or> x = CHR ''_'') rest)"

definition kwlist :: "string list" where
  "kwlist =
     [''False'', ''None'', ''True'', ''and'', ''as'', ''assert'', ''async'', ''await'',
      ''break'', ''class'', ''continue'', ''def'', ''del'', ''elif'', ''else'', ''except'',
      ''finally'', ''for'', ''from'', ''global'', ''if'', ''import'', ''in'', ''is'',
      ''lambda'', ''nonlocal'', ''not'', ''or'', ''pass'', ''raise'', ''return'', ''try'',
      ''while'', ''with'', ''yield'']"

definition valid_field_names :: "string list \<Rightarrow> bool" where
  "valid_field_names names =
     (list_all (\<lambda>n. isidentifier n \<and> n \<notin> set kwlist) names \<and>
      list_all (\<lambda>n. take 1 n \<noteq> ''_'') names \<and>
      distinct names)"

text \<open>
  An instance of the named tuple binds the names to the values by position; reading a
  name that is not a field raises \<^verbatim>\<open>AttributeError\<close>.
\<close>

definition tuple_field :: "(string \<times> 'a) list \<Rightarrow> string \<Rightarrow> exn + 'a" where
  "tuple_field tup name =
     (case map_of tup name of None \<Rightarrow> Inl (AttributeError name) | Some v \<Rightarrow> Inr v)"

text \<open>
  \<^verbatim>\<open>
  def parse(path):
      with open(path) as f:
          lines = f.readlines()
      NamedXsc = namedtuple('NamedXsc', lines[1].split()[1:])
      return NamedXsc(*map(float, lines[2].split()))
  \<close>
  \<open>readlines\<close> is \<^verbatim>\<open>open(path).readlines()\<close> and \<open>float\<close> the builtin, both
  parameters. The call of \<^verbatim>\<open>NamedXsc\<close> raises \<^verbatim>\<open>TypeError\<close> unless it gets one
  value per field.
\<close>

definition parse ::
  "(string \<Rightarrow> exn + string list) \<Rightarrow> (string \<Rightarrow> exn + 'f) \<Rightarrow> string \<Rightarrow>
   exn + (string \<times> 'f) list" where
  "parse readlines float path =
     (case readlines path of
        Inl e \<Rightarrow> Inl e
      | Inr lines \<Rightarrow>
     (case getitem lines 1 of
        Inl e \<Rightarrow> Inl e
      | Inr header \<Rightarrow>
          (let names = drop 1 (split header) in
           if \<not> valid_field_names names
           then Inl (ValueError ''Type names and field names must be valid identifiers'')
           else
     (case getitem lines 2 of
        Inl e \<Rightarrow> Inl e
      | Inr numbers \<Rightarrow>
     (case map_exn float (split numbers) of
        Inl e \<Rightarrow> Inl e
      | Inr vals \<Rightarrow>
          if length vals \<noteq> length names
          then Inl (TypeError ''__new__() got the wrong number of arguments'')
          else Inr (zip names vals))))))"

text \<open>
  \<^verbatim>\<open>
  def from_xsc(cls, path):
      xsc = parse(path)
      box_vectors = u.Quantity(
          [[xsc.a_x, 0, 0], [0, xsc.b_y, 0], [0, 0, xsc.c_z]], unit=u.angstroms)
      return box_vectors
  \<close>
\<close>

definition from_xsc ::
  "(string \<Rightarrow> exn + string list) \<Rightarrow> (string \<Rightarrow> exn + 'f) \<Rightarrow> string \<Rightarrow> exn + 'f pyval" where
  "from_xsc readlines float path =
     (case parse readlines float path of
        Inl e \<Rightarrow> Inl e
      | Inr xsc \<Rightarrow>
     (case tuple_field xsc ''a_x'' of
        Inl e \<Rightarrow> Inl e
      | Inr a_x \<Rightarrow>
     (case tuple_field xsc ''b_y'' of
        Inl e \<Rightarrow> Inl e
      | Inr b_y \<Rightarrow>
     (case tuple_field xsc ''c_z'' of
        Inl e \<Rightarrow> Inl e
      | Inr c_z \<Rightarrow>
          Inr (QuantityObj
                 [[PyFloat a_x, PyInt 0, PyInt 0],
                  [PyInt 0, PyFloat b_y, PyInt 0],
                  [PyInt 0, PyInt 0, PyFloat c_z]]
                 angstroms)))))"

section \<open>\<^verbatim>\<open>MultiFormatLoader.load\<close> and the tables \<^verbatim>\<open>_loaders\<close>\<close>

datatype loader_class =
    MultiFormatLoader_cls
  | SystemHandler_cls
  | Positions_cls
  | Velocities_cls
  | BoxVectors_cls
  | Restart_cls

datatype handler =
    SystemHandler_from_pdb
  | SystemHandler_from_prmtop
  | SystemHandler_from_psf
  | Positions_from_pdb
  | Positions_from_coor
  | Positions_from_inpcrd
  | Velocities_from_vel
  | BoxVectors_from_xsc
  | Restart_from_xml
  | Restart_from_rst

text \<open>\<^verbatim>\<open>d[k]\<close> of a dict literal: \<^verbatim>\<open>KeyError\<close> when the key is missing.\<close>

definition dict_getitem :: "(string \<times> 'a) list \<Rightarrow> string \<Rightarrow> exn + 'a" where
  "dict_getitem d k = (case map_of d k of None \<Rightarrow> Inl (KeyError k) | Some v \<Rightarrow> Inr v)"

text \<open>
  The class method \<^verbatim>\<open>_loaders(cls, ext)\<close> of each class: the base class raises, every
  other class indexes its dict literal.
\<close>

fun loaders :: "loader_class \<Rightarrow> string \<Rightarrow> exn + handler" where
  "loaders MultiFormatLoader_cls ext = Inl (NotImplementedError ''Override this method'')"
| "loaders SystemHandler_cls ext =
     dict_getitem [(''pdb'', SystemHandler_from_pdb),
                   (''prmtop'', SystemHandler_from_prmtop),
                   (''top'', SystemHandler_from_prmtop),
                   (''psf'', SystemHandler_from_psf)] ext"
| "loaders Positions_cls ext =
     dict_getitem [(''pdb'', Positions_from_pdb),
                   (''coor'', Positions_from_coor),
                   (''inpcrd'', Positions_from_inpcrd),
                   (''crd'', Positions_from_inpcrd)] ext"
| "loaders Velocities_cls ext = dict_getitem [(''vel'', Velocities_from_vel)] ext"
| "loaders BoxVectors_cls ext = dict_getitem [(''xsc'', BoxVectors_from_xsc)] ext"
| "loaders Restart_cls ext =
     dict_getitem [(''xml'', Restart_from_xml),
                   (''rst'', Restart_from_rst),
                   (''restart'', Restart_from_rst)] ext"

text \<open>
  Reading an attribute of a \<^verbatim>\<open>str\<close> by name, for the attributes that are methods from
  one \<^verbatim>\<open>str\<close> argument to a \<^verbatim>\<open>str\<close>: \<^verbatim>\<open>lstrip\<close>, \<^verbatim>\<open>rstrip\<close> and \<^verbatim>\<open>strip\<close>. The
  name \<^verbatim>\<open>lsplit\<close> that \<^verbatim>\<open>load\<close> reads is no attribute of \<^verbatim>\<open>str\<close> (its methods of
  that kind are \<^verbatim>\<open>lstrip\<close>, \<^verbatim>\<open>split\<close> and \<^verbatim>\<open>rsplit\<close>), so reading it raises
  \<^verbatim>\<open>AttributeError\<close>.
\<close>

definition lstrip :: "string \<Rightarrow> string \<Rightarrow> string" where
  "lstrip s chars = dropWhile (\<lambda>ch. ch \<in> set chars) s"

definition rstrip :: "string \<Rightarrow> string \<Rightarrow> string" where
  "rstrip s chars = rev (dropWhile (\<lambda>ch. ch \<in> set chars) (rev s))"

definition strip :: "string \<Rightarrow> string \<Rightarrow> string" where
  "strip s chars = rstrip (lstrip s chars) chars"

definition str_attribute :: "string \<Rightarrow> exn + (string \<Rightarrow> string \<Rightarrow> string)" where
  "str_attribute name =
     (if name = ''lstrip'' then Inr lstrip
      else if name = ''rstrip'' then Inr rstrip
      else if name = ''strip'' then Inr strip
      else Inl (AttributeError name))"

text \<open>
  \<^verbatim>\<open>
  def load(cls, path, **kwargs):
      name, ext = os.path.splitext(path)
      try:
          return cls._loaders(ext.lsplit('.'))(path, **kwargs)
      except KeyError:
          raise NotImplementedError('Unknown loader for format {}'.format(ext))
      except IOError:
          raise IOError('Could not access file {}'.format(path))
  \<close>
  \<open>lookup_and_call\<close> is the expression \<^verbatim>\<open>cls._loaders(key)(path, **kwargs)\<close> for a
  key already computed, \<open>load_except\<close> the two \<^verbatim>\<open>except\<close> clauses, which see every
  exception of the \<^verbatim>\<open>try\<close> body, those of the handler included. Calling a handler is
  the parameter \<open>call\<close>.
\<close>

definition lookup_and_call ::
  "(handler \<Rightarrow> string \<Rightarrow> 'k \<Rightarrow> exn + 'r) \<Rightarrow> loader_class \<Rightarrow> string \<Rightarrow> string \<Rightarrow> 'k \<Rightarrow> exn + 'r" where
  "lookup_and_call call cls key path kwargs =
     (case loaders cls key of Inl e \<Rightarrow> Inl e | Inr h \<Rightarrow> call h path kwargs)"

definition load_except :: "string \<Rightarrow> string \<Rightarrow> exn + 'r \<Rightarrow> exn + 'r" where
  "load_except ext path r =
     (case r of
        Inl (KeyError k) \<Rightarrow> Inl (NotImplementedError (''Unknown loader for format '' @ ext))
      | Inl (IOError m) \<Rightarrow> Inl (IOError (''Could not access file '' @ path))
      | _ \<Rightarrow> r)"

definition load ::
  "(handler \<Rightarrow> string \<Rightarrow> 'k \<Rightarrow> exn + 'r) \<Rightarrow> loader_class \<Rightarrow> string \<Rightarrow> 'k \<Rightarrow> exn + 'r" where
  "load call cls path kwargs =
     (let (name, ext) = splitext path in
      load_except ext path
        (case str_attribute ''lsplit'' of
           Inl e \<Rightarrow> Inl e
         | Inr method \<Rightarrow> lookup_and_call call cls (method ext ''.'') path kwargs))"

section \<open>\<^verbatim>\<open>random_string\<close>\<close>

text \<open>
  The names the module binds at its top level (its imports, classes and functions), and
  the builtins: a name that is in neither raises \<^verbatim>\<open>NameError\<close> when it is read. The
  string of a \<open>NameError\<close> is the name.
\<close>

definition module_globals :: "string list" where
  "module_globals =
     [''os'', ''sys'', ''namedtuple'', ''ArgumentParser'', ''u'', ''Topology'', ''PDBFile'',
      ''ForceField'', ''AmberPrmtopFile'', ''AmberInpcrdFile'', ''CharmmPsfFile'',
      ''CharmmParameterSet'', ''XmlSerializer'', ''NamdBinCoor'', ''NamdBinVel'',
      ''parmed_load_file'', ''create_ffxml_file'', ''yaml'', ''ommprotocol'',
      ''YamlLoader'', ''MultiFormatLoader'', ''InputContainer'', ''SystemHandler'',
      ''Positions'', ''Velocities'', ''BoxVectors'', ''Restart'', ''parse_arguments'',
      ''assert_not_exists'', ''process_forcefield'', ''validate'', ''random_string'',
      ''__name__'', ''__doc__'', ''__package__'', ''__loader__'', ''__spec__'',
      ''__file__'', ''__cached__'', ''__builtins__'']"

definition builtin_names :: "string list" where
  "builtin_names =
     [''abs'', ''aiter'', ''all'', ''anext'', ''any'', ''ascii'', ''bin'', ''bool'',
      ''breakpoint'', ''bytearray'', ''bytes'', ''callable'', ''chr'', ''classmethod'',
      ''compile'', ''complex'', ''copyright'', ''credits'', ''delattr'', ''dict'', ''dir'',
      ''divmod'', ''enumerate'', ''eval'', ''exec'', ''exit'', ''filter'', ''float'',
      ''format'', ''frozenset'', ''getattr'', ''globals'', ''hasattr'', ''hash'', ''help'',
      ''hex'', ''id'', ''input'', ''int'', ''isinstance'', ''issubclass'', ''iter'', ''len'',
      ''license'', ''list'', ''locals'', ''map'', ''max'', ''memoryview'', ''min'', ''next'',
      ''object'', ''oct'', ''open'', ''ord'', ''pow'', ''print'', ''property'', ''quit'',
      ''range'', ''repr'', ''reversed'', ''round'', ''set'', ''setattr'', ''slice'',
      ''sorted'', ''staticmethod'', ''str'', ''sum'', ''super'', ''tuple'', ''type'',
      ''vars'', ''zip'', ''__import__'', ''__build_class__'', ''__debug__'',
      ''None'', ''True'', ''False'', ''Ellipsis'', ''NotImplemented'',
      ''BaseException'', ''Exception'', ''ArithmeticError'', ''AssertionError'',
      ''AttributeError'', ''BufferError'', ''EOFError'', ''EnvironmentError'',
      ''FloatingPointError'', ''GeneratorExit'', ''IOError'', ''ImportError'',
      ''IndentationError'', ''IndexError'', ''KeyError'', ''KeyboardInterrupt'',
      ''LookupError'', ''MemoryError'', ''ModuleNotFoundError'', ''NameError'',
      ''NotImplementedError'', ''OSError'', ''OverflowError'', ''RecursionError'',
      ''ReferenceError'', ''RuntimeError'', ''StopAsyncIteration'', ''StopIteration'',
      ''SyntaxError'', ''SystemError'', ''SystemExit'', ''TabError'', ''TimeoutError'',
      ''TypeError'', ''UnboundLocalError'', ''UnicodeDecodeError'', ''UnicodeEncodeError'',
      ''UnicodeError'', ''UnicodeTranslateError'', ''ValueError'', ''ZeroDivisionError'',
      ''BlockingIOError'', ''BrokenPipeError'', ''ChildProcessError'', ''ConnectionError'',
      ''ConnectionAbortedError'', ''ConnectionRefusedError'', ''ConnectionResetError'',
      ''FileExistsError'', ''FileNotFoundError'', ''InterruptedError'',
      ''IsADirectoryError'', ''NotADirectoryError'', ''PermissionError'',
      ''ProcessLookupError'', ''Warning'', ''BytesWarning'', ''DeprecationWarning'',
      ''FutureWarning'', ''ImportWarning'', ''PendingDeprecationWarning'',
      ''ResourceWarning'', ''RuntimeWarning'', ''SyntaxWarning'', ''UnicodeWarning'',
      ''UserWarning'']"

definition lookup_global :: "string \<Rightarrow> exn + string" where
  "lookup_global n =
     (if n \<in> set module_globals \<or> n \<in> set builtin_names
      then Inr n else Inl (NameError n))"

text \<open>
  \<^verbatim>\<open>
  def random_string(length=5):
      return ''.join(choice(ascii_letters) for _ in range(length))
  \<close>
  The argument \<^verbatim>\<open>length\<close> is \<open>len\<close> here. \<^verbatim>\<open>range(length)\<close> has \<open>nat len\<close>
  elements (none when \<open>len \<le> 0\<close>). For each
  of them \<^verbatim>\<open>join\<close> asks the generator for \<^verbatim>\<open>choice(ascii_letters)\<close>, which reads the
  global \<^verbatim>\<open>choice\<close>, then the global \<^verbatim>\<open>ascii_letters\<close>, then calls; \<open>call\<close> is the
  call of one global on another, a parameter.
\<close>

fun generator :: "(string \<Rightarrow> string \<Rightarrow> exn + string) \<Rightarrow> nat \<Rightarrow> exn + string list" where
  "generator call 0 = Inr []"
| "generator call (Suc n) =
     (case lookup_global ''choice'' of
        Inl e \<Rightarrow> Inl e
      | Inr f \<Rightarrow>
     (case lookup_global ''ascii_letters'' of
        Inl e \<Rightarrow> Inl e
      | Inr letters \<Rightarrow>
     (case call f letters of
        Inl e \<Rightarrow> Inl e
      | Inr ch \<Rightarrow>
     (case generator call n of
        Inl e \<Rightarrow> Inl e
      | Inr chs \<Rightarrow> Inr (ch # chs)))))"

definition random_string :: "(string \<Rightarrow> string \<Rightarrow> exn + string) \<Rightarrow> int \<Rightarrow> exn + string" where
  "random_string call len =
     (case generator call (nat len) of Inl e \<Rightarrow> Inl e | Inr chs \<Rightarrow> Inr (concat chs))"

section \<open>Properties of \<^verbatim>\<open>assert_not_exists\<close>\<close>

text \<open>
  Two numbers with the same decimal digits are equal, so the numbered names of one path
  are pairwise different, and a finite file system cannot hold all of them.
\<close>

lemma str_nat_nonempty: "str_nat n \<noteq> []"
  by (subst str_nat.simps) simp

lemma digit_char_inj: "a < 10 \<Longrightarrow> b < 10 \<Longrightarrow> digit_char a = digit_char b \<Longrightarrow> a = b"
proof -
  assume a: "a < 10" and b: "b < 10" and e: "digit_char a = digit_char b"
  have d: "distinct ''0123456789''" by simp
  have "length ''0123456789'' = 10" by simp
  with a b e d show "a = b"
    unfolding digit_char_def by (metis nth_eq_iff_index_eq)
qed

lemma str_nat_small: "n < 10 \<Longrightarrow> str_nat n = [digit_char n]"
  by (subst str_nat.simps) simp

lemma str_nat_big: "\<not> n < 10 \<Longrightarrow> str_nat n = str_nat (n div 10) @ [digit_char (n mod 10)]"
  by (subst str_nat.simps) simp

lemma str_nat_inj: "str_nat a = str_nat b \<Longrightarrow> a = b"
proof (induction a arbitrary: b rule: less_induct)
  case (less a)
  show ?case
  proof (cases "a < 10")
    case True
    show ?thesis
    proof (cases "b < 10")
      case True
      with \<open>a < 10\<close> less.prems show ?thesis
        by (simp add: str_nat_small digit_char_inj)
    next
      case False
      with \<open>a < 10\<close> less.prems str_nat_nonempty [of "b div 10"] show ?thesis
        by (simp add: str_nat_small str_nat_big)
    qed
  next
    case False
    show ?thesis
    proof (cases "b < 10")
      case True
      with \<open>\<not> a < 10\<close> less.prems str_nat_nonempty [of "a div 10"] show ?thesis
        by (simp add: str_nat_small str_nat_big)
    next
      case False
      with \<open>\<not> a < 10\<close> less.prems
      have e: "str_nat (a div 10) = str_nat (b div 10)" and d: "digit_char (a mod 10) = digit_char (b mod 10)"
        by (simp_all add: str_nat_big)
      have "a div 10 < a" using \<open>\<not> a < 10\<close> by simp
      then have "a div 10 = b div 10" using less.IH e by blast
      moreover have "a mod 10 = b mod 10" using d by (simp add: digit_char_inj)
      ultimately show ?thesis by (metis div_mult_mod_eq)
    qed
  qed
qed

lemma str_int_inj_nat: "str_int (int i) = str_int (int j) \<Longrightarrow> i = j"
  by (simp add: str_int_def str_nat_inj)

lemma name_sequence_inj_on: "inj_on (name_sequence path) {1..}"
  unfolding inj_on_def name_sequence_def
  by (auto dest: str_int_inj_nat)

lemma some_name_free:
  assumes "finite fs"
  shows "\<exists>k. name_sequence path k \<notin> fs"
proof (rule ccontr)
  assume "\<not> ?thesis"
  then have "name_sequence path ` {1..} \<subseteq> fs" by auto
  then have "finite (name_sequence path ` {1..})" using assms by (rule finite_subset)
  then have "finite ({1..} :: nat set)" using name_sequence_inj_on by (rule finite_imageD)
  then show False by (simp add: infinite_Ici)
qed

text \<open>
  One turn of the loop goes from a name of the sequence to the next one; as long as
  the names exist, the loop walks along the sequence.
\<close>

lemma loop_step:
  "name_sequence path j \<in> fs \<Longrightarrow>
   assert_not_exists_loop fs (fst (splitext path)) (snd (splitext path)) (name_sequence path j) (int j + 1) =
   assert_not_exists_loop fs (fst (splitext path)) (snd (splitext path)) (name_sequence path (Suc j)) (int (Suc j) + 1)"
  by (subst assert_not_exists_loop.simps) (simp add: name_sequence_def add.commute)

lemma loop_reaches:
  assumes free: "name_sequence path k \<notin> fs"
    and taken: "\<forall>j<k. name_sequence path j \<in> fs"
  shows "d \<le> k \<Longrightarrow>
    assert_not_exists_loop fs (fst (splitext path)) (snd (splitext path))
      (name_sequence path (k - d)) (int (k - d) + 1) = Some (name_sequence path k)"
proof (induction d)
  case 0
  with free show ?case by (subst assert_not_exists_loop.simps) simp
next
  case (Suc d)
  then have lt: "k - Suc d < k" and s: "Suc (k - Suc d) = k - d" by simp_all
  from taken lt have "name_sequence path (k - Suc d) \<in> fs" by blast
  from loop_step [OF this] Suc s show ?case by simp
qed


lemma assert_not_exists_at:
  assumes "name_sequence path k \<notin> fs" and "\<forall>j<k. name_sequence path j \<in> fs"
  shows "assert_not_exists fs path = Some (name_sequence path k)"
proof -
  have "name_sequence path 0 = path" by (simp add: name_sequence_def)
  with loop_reaches [OF assms, of k] show ?thesis
    by (simp add: assert_not_exists_def split_beta)
qed

lemma splitext_file_txt: "splitext ''file.txt'' = (''file'', ''.txt'')"
  by (simp add: splitext_def rfind_def)

lemma name_sequence_file_txt:
  "name_sequence ''file.txt'' 0 = ''file.txt''"
  "name_sequence ''file.txt'' (Suc 0) = ''file.1.txt''"
  "name_sequence ''file.txt'' (Suc (Suc 0)) = ''file.2.txt''"
  by (simp_all add: name_sequence_def splitext_file_txt str_int_def digit_char_def)

text \<open>
  Claim C8. For every path, on a file system with finitely many paths,
  \<open>assert_not_exists\<close> returns, and what it returns is the first name of the sequence
  path, \<^verbatim>\<open>name.1.ext\<close>, \<^verbatim>\<open>name.2.ext\<close>, ... that does not exist: the name
  is free and every earlier name of the sequence exists. In particular an existing
  \<^verbatim>\<open>file.txt\<close> gives \<^verbatim>\<open>file.1.txt\<close>, and when that exists too,
  \<^verbatim>\<open>file.2.txt\<close>.
\<close>

theorem assert_not_exists_first_free:
  "(finite fs \<longrightarrow>
     (\<exists>k. assert_not_exists fs path = Some (name_sequence path k) \<and>
          name_sequence path k \<notin> fs \<and> (\<forall>j<k. name_sequence path j \<in> fs))) \<and>
   (''file.txt'' \<in> fs' \<and> ''file.1.txt'' \<notin> fs' \<longrightarrow>
     assert_not_exists fs' ''file.txt'' = Some ''file.1.txt'') \<and>
   (''file.txt'' \<in> fs'' \<and> ''file.1.txt'' \<in> fs'' \<and> ''file.2.txt'' \<notin> fs'' \<longrightarrow>
     assert_not_exists fs'' ''file.txt'' = Some ''file.2.txt'')"
proof (intro conjI impI)
  assume fin: "finite fs"
  define k where "k = (LEAST k. name_sequence path k \<notin> fs)"
  from some_name_free [OF fin, of path]
  have free: "name_sequence path k \<notin> fs" unfolding k_def by (rule exE) (rule LeastI)
  have taken: "\<forall>j<k. name_sequence path j \<in> fs"
    unfolding k_def using not_less_Least by blast
  from assert_not_exists_at [OF free taken] free taken
  show "\<exists>k. assert_not_exists fs path = Some (name_sequence path k) \<and>
          name_sequence path k \<notin> fs \<and> (\<forall>j<k. name_sequence path j \<in> fs)"
    by blast
next
  assume "''file.txt'' \<in> fs' \<and> ''file.1.txt'' \<notin> fs'"
  with assert_not_exists_at [of "''file.txt''" "Suc 0" fs']
  show "assert_not_exists fs' ''file.txt'' = Some ''file.1.txt''"
    by (simp add: name_sequence_file_txt)
next
  assume a: "''file.txt'' \<in> fs'' \<and> ''file.1.txt'' \<in> fs'' \<and> ''file.2.txt'' \<notin> fs''"
  then have "\<forall>j<Suc (Suc 0). name_sequence ''file.txt'' j \<in> fs''"
    by (auto simp: less_Suc_eq name_sequence_file_txt)
  with assert_not_exists_at [of "''file.txt''" "Suc (Suc 0)" fs''] a
  show "assert_not_exists fs'' ''file.txt'' = Some ''file.2.txt''"
    by (simp add: name_sequence_file_txt)
qed

theorem assert_not_exists_first_free_witness:
  "finite {''file.txt'', ''file.1.txt''} \<and>
   (\<exists>k. assert_not_exists {''file.txt'', ''file.1.txt''} ''file.txt'' =
          Some (name_sequence ''file.txt'' k) \<and>
        name_sequence ''file.txt'' k \<notin> {''file.txt'', ''file.1.txt''} \<and>
        (\<forall>j<k. name_sequence ''file.txt'' j \<in> {''file.txt'', ''file.1.txt''})) \<and>
   assert_not_exists {''file.txt''} ''file.txt'' = Some ''file.1.txt'' \<and>
   assert_not_exists {''file.txt'', ''file.1.txt''} ''file.txt'' = Some ''file.2.txt''"
proof -
  note t = assert_not_exists_first_free
    [of "{''file.txt'', ''file.1.txt''}" "''file.txt''" "{''file.txt''}"
        "{''file.txt'', ''file.1.txt''}"]
  have fin: "finite {''file.txt'', ''file.1.txt''}" by simp
  from t have "finite {''file.txt'', ''file.1.txt''} \<longrightarrow>
    (\<exists>k. assert_not_exists {''file.txt'', ''file.1.txt''} ''file.txt'' =
          Some (name_sequence ''file.txt'' k) \<and>
        name_sequence ''file.txt'' k \<notin> {''file.txt'', ''file.1.txt''} \<and>
        (\<forall>j<k. name_sequence ''file.txt'' j \<in> {''file.txt'', ''file.1.txt''}))"
    by (rule conjunct1)
  then have a: "\<exists>k. assert_not_exists {''file.txt'', ''file.1.txt''} ''file.txt'' =
          Some (name_sequence ''file.txt'' k) \<and>
        name_sequence ''file.txt'' k \<notin> {''file.txt'', ''file.1.txt''} \<and>
        (\<forall>j<k. name_sequence ''file.txt'' j \<in> {''file.txt'', ''file.1.txt''})"
    using fin by (rule mp)
  from t have b: "assert_not_exists {''file.txt''} ''file.txt'' = Some ''file.1.txt''"
    by simp
  from t have c: "assert_not_exists {''file.txt'', ''file.1.txt''} ''file.txt'' = Some ''file.2.txt''"
    by simp
  from fin a b c show ?thesis by (intro conjI)
qed

section \<open>Properties of \<^verbatim>\<open>validate\<close> and the containers\<close>

lemma InputContainer_init_Inr:
  "InputContainer_init t p v b = Inr c \<longleftrightarrow>
     class_of t = Topology \<and> class_of p = Quantity \<and>
     class_of v = Quantity \<and> class_of b = Quantity \<and>
     c = \<lparr>priv_topology = t, priv_positions = p, priv_velocities = v, priv_box = b\<rparr>"
  by (auto simp: InputContainer_init_def set_topology_def set_positions_def set_velocities_def
      set_box_def validate_def split: sum.splits if_splits)

lemma InputContainer_init_Inl:
  "InputContainer_init t p v b = Inl e \<longleftrightarrow>
     \<not> (class_of t = Topology \<and> class_of p = Quantity \<and>
        class_of v = Quantity \<and> class_of b = Quantity) \<and>
     e = TypeError ''isinstance() arg 2 must be a type or tuple of types''"
  by (auto simp: InputContainer_init_def set_topology_def set_positions_def set_velocities_def
      set_box_def validate_def split: sum.splits if_splits)

lemma InputContainer_init_PyNone:
  "InputContainer_init PyNone p v b =
     Inl (TypeError ''isinstance() arg 2 must be a type or tuple of types'')"
  "InputContainer_init t PyNone v b =
     Inl (TypeError ''isinstance() arg 2 must be a type or tuple of types'')"
  "InputContainer_init t p PyNone b =
     Inl (TypeError ''isinstance() arg 2 must be a type or tuple of types'')"
  "InputContainer_init t p v PyNone =
     Inl (TypeError ''isinstance() arg 2 must be a type or tuple of types'')"
  by (simp_all add: InputContainer_init_Inl)

lemma SystemHandler_init_PyNone:
  "SystemHandler_init m PyNone p v b path =
     Inl (TypeError ''isinstance() arg 2 must be a type or tuple of types'')"
  "SystemHandler_init m t PyNone v b path =
     Inl (TypeError ''isinstance() arg 2 must be a type or tuple of types'')"
  "SystemHandler_init m t p PyNone b path =
     Inl (TypeError ''isinstance() arg 2 must be a type or tuple of types'')"
  "SystemHandler_init m t p v PyNone path =
     Inl (TypeError ''isinstance() arg 2 must be a type or tuple of types'')"
  by (simp_all add: SystemHandler_init_def InputContainer_init_PyNone)

text \<open>
  Claim C2, on the code. Assigning a value of the expected class stores it, and
  assigning an object of another class raises \<^verbatim>\<open>TypeError\<close> with nothing stored, as
  the claim says. Assigning \<^verbatim>\<open>None\<close> does not succeed: \<^verbatim>\<open>isinstance\<close> reaches the
  tuple's second element, the object \<^verbatim>\<open>None\<close>, and raises \<^verbatim>\<open>TypeError\<close>; so
  does the constructor called with every field left out.
\<close>

theorem assigning_None_raises:
  "set_topology (TopologyObj n) self = Inr (self\<lparr>priv_topology := TopologyObj n\<rparr>) \<and>
   set_positions (QuantityObj q un) self = Inr (self\<lparr>priv_positions := QuantityObj q un\<rparr>) \<and>
   set_velocities (QuantityObj q un) self = Inr (self\<lparr>priv_velocities := QuantityObj q un\<rparr>) \<and>
   set_box (QuantityObj q un) self = Inr (self\<lparr>priv_box := QuantityObj q un\<rparr>) \<and>
   set_topology (OtherObj k) self =
     Inl (TypeError ''isinstance() arg 2 must be a type or tuple of types'') \<and>
   set_positions (OtherObj k) self =
     Inl (TypeError ''isinstance() arg 2 must be a type or tuple of types'') \<and>
   set_topology PyNone self =
     Inl (TypeError ''isinstance() arg 2 must be a type or tuple of types'') \<and>
   set_positions PyNone self =
     Inl (TypeError ''isinstance() arg 2 must be a type or tuple of types'') \<and>
   set_velocities PyNone self =
     Inl (TypeError ''isinstance() arg 2 must be a type or tuple of types'') \<and>
   set_box PyNone self =
     Inl (TypeError ''isinstance() arg 2 must be a type or tuple of types'') \<and>
   InputContainer_init PyNone PyNone PyNone PyNone =
     Inl (TypeError ''isinstance() arg 2 must be a type or tuple of types'')"
  by (simp add: set_topology_def set_positions_def set_velocities_def set_box_def
      InputContainer_init_def validate_def)

section \<open>Properties of \<^verbatim>\<open>create_system\<close>\<close>

text \<open>
  Claim C3. \<open>create_system\<close> raises \<^verbatim>\<open>ValueError\<close> (this instance is not able to
  create systems) whenever the master handle is \<^verbatim>\<open>None\<close>; with a \<^verbatim>\<open>PDBFile\<close> master
  that has no \<^verbatim>\<open>forcefield\<close> attribute, and with a \<^verbatim>\<open>CharmmPsfFile\<close> master that has
  no \<^verbatim>\<open>parmset\<close> attribute, it raises the \<^verbatim>\<open>ValueError\<close> of that configuration.
\<close>

theorem create_system_errors:
  "(master self = None \<longrightarrow>
      create_system F A P self opts =
        Inl (ValueError ''This instance is not able to create systems.'')) \<and>
   (master self' = Some (PDBFileObj pdb) \<and> forcefield pdb = None \<longrightarrow>
      create_system F A P self' opts =
        Inl (ValueError ''PDB topology files must be instanciated with forcefield paths.'')) \<and>
   (master self'' = Some (CharmmPsfFileObj psf) \<and> parmset psf = None \<longrightarrow>
      create_system F A P self'' opts =
        Inl (ValueError ''PSF topology files must be instanciated with Charmm parameters.''))"
  by (simp add: create_system_def)

theorem create_system_errors_witness:
  "create_system (\<lambda>ff t kw. Inr ''system'') (\<lambda>prmtop kw. Inr ''system'')
      (\<lambda>psf ps kw. Inr ''system'')
      \<lparr>priv_topology = TopologyObj ''topology'',
       priv_positions = QuantityObj [[PyFloat (1::real), PyFloat 2, PyFloat 3]] angstroms,
       priv_velocities = QuantityObj [[PyFloat 0, PyFloat 0, PyFloat 0]] angstroms_per_picosecond,
       priv_box = QuantityObj [[PyFloat 9, PyInt 0, PyInt 0], [PyInt 0, PyFloat 9, PyInt 0],
                              [PyInt 0, PyInt 0, PyFloat 9]] angstroms,
       master = (None :: (real, string, string) pymaster option), priv_path = None\<rparr>
      (None :: (string \<times> string) list option) =
     Inl (ValueError ''This instance is not able to create systems.'') \<and>
   create_system (\<lambda>ff t kw. Inr ''system'') (\<lambda>prmtop kw. Inr ''system'')
      (\<lambda>psf ps kw. Inr ''system'')
      \<lparr>priv_topology = TopologyObj ''topology'',
       priv_positions = QuantityObj [[PyFloat (1::real), PyFloat 2, PyFloat 3]] angstroms,
       priv_velocities = QuantityObj [[PyFloat 0, PyFloat 0, PyFloat 0]] angstroms_per_picosecond,
       priv_box = QuantityObj [[PyFloat 9, PyInt 0, PyInt 0], [PyInt 0, PyFloat 9, PyInt 0],
                              [PyInt 0, PyInt 0, PyFloat 9]] angstroms,
       master = Some (PDBFileObj
         \<lparr>pdb_topology = TopologyObj ''topology'', pdb_unit_cell = PyNone,
          pdb_positions = QuantityObj [[PyFloat 1, PyFloat 2, PyFloat 3]] angstroms,
          pdb_velocities = None, forcefield = (None :: string option)\<rparr>)
         :: (real, string, string) pymaster option,
       priv_path = Some ''a.pdb''\<rparr>
      (None :: (string \<times> string) list option) =
     Inl (ValueError ''PDB topology files must be instanciated with forcefield paths.'') \<and>
   create_system (\<lambda>ff t kw. Inr ''system'') (\<lambda>prmtop kw. Inr ''system'')
      (\<lambda>psf ps kw. Inr ''system'')
      \<lparr>priv_topology = TopologyObj ''topology'',
       priv_positions = QuantityObj [[PyFloat (1::real), PyFloat 2, PyFloat 3]] angstroms,
       priv_velocities = QuantityObj [[PyFloat 0, PyFloat 0, PyFloat 0]] angstroms_per_picosecond,
       priv_box = QuantityObj [[PyFloat 9, PyInt 0, PyInt 0], [PyInt 0, PyFloat 9, PyInt 0],
                              [PyInt 0, PyInt 0, PyFloat 9]] angstroms,
       master = Some (CharmmPsfFileObj
         \<lparr>psf_topology = TopologyObj ''topology'', parmset = (None :: string option)\<rparr>)
         :: (real, string, string) pymaster option,
       priv_path = Some ''a.psf''\<rparr>
      (None :: (string \<times> string) list option) =
     Inl (ValueError ''PSF topology files must be instanciated with Charmm parameters.'')"
  using create_system_errors
    [of "\<lparr>priv_topology = TopologyObj ''topology'',
       priv_positions = QuantityObj [[PyFloat (1::real), PyFloat 2, PyFloat 3]] angstroms,
       priv_velocities = QuantityObj [[PyFloat 0, PyFloat 0, PyFloat 0]] angstroms_per_picosecond,
       priv_box = QuantityObj [[PyFloat 9, PyInt 0, PyInt 0], [PyInt 0, PyFloat 9, PyInt 0],
                              [PyInt 0, PyInt 0, PyFloat 9]] angstroms,
       master = (None :: (real, string, string) pymaster option), priv_path = None\<rparr>"
      "\<lambda>ff t kw. Inr ''system''" "\<lambda>prmtop kw. Inr ''system''" "\<lambda>psf ps kw. Inr ''system''"
      "None :: (string \<times> string) list option"
      "\<lparr>priv_topology = TopologyObj ''topology'',
       priv_positions = QuantityObj [[PyFloat (1::real), PyFloat 2, PyFloat 3]] angstroms,
       priv_velocities = QuantityObj [[PyFloat 0, PyFloat 0, PyFloat 0]] angstroms_per_picosecond,
       priv_box = QuantityObj [[PyFloat 9, PyInt 0, PyInt 0], [PyInt 0, PyFloat 9, PyInt 0],
                              [PyInt 0, PyInt 0, PyFloat 9]] angstroms,
       master = Some (PDBFileObj
         \<lparr>pdb_topology = TopologyObj ''topology'', pdb_unit_cell = PyNone,
          pdb_positions = QuantityObj [[PyFloat 1, PyFloat 2, PyFloat 3]] angstroms,
          pdb_velocities = None, forcefield = (None :: string option)\<rparr>),
       priv_path = Some ''a.pdb''\<rparr>"
      "\<lparr>pdb_topology = TopologyObj ''topology'', pdb_unit_cell = PyNone,
          pdb_positions = QuantityObj [[PyFloat 1, PyFloat 2, PyFloat 3]] angstroms,
          pdb_velocities = None, forcefield = (None :: string option)\<rparr>"
      "\<lparr>priv_topology = TopologyObj ''topology'',
       priv_positions = QuantityObj [[PyFloat (1::real), PyFloat 2, PyFloat 3]] angstroms,
       priv_velocities = QuantityObj [[PyFloat 0, PyFloat 0, PyFloat 0]] angstroms_per_picosecond,
       priv_box = QuantityObj [[PyFloat 9, PyInt 0, PyInt 0], [PyInt 0, PyFloat 9, PyInt 0],
                              [PyInt 0, PyInt 0, PyFloat 9]] angstroms,
       master = Some (CharmmPsfFileObj
         \<lparr>psf_topology = TopologyObj ''topology'', parmset = (None :: string option)\<rparr>),
       priv_path = Some ''a.psf''\<rparr>"
      "\<lparr>psf_topology = TopologyObj ''topology'', parmset = (None :: string option)\<rparr>"]
  by simp

text \<open>
  Claim C10. When the master handle is an object of none of the three classes
  \<^verbatim>\<open>PDBFile\<close>, \<^verbatim>\<open>AmberPrmtopFile\<close>, \<^verbatim>\<open>CharmmPsfFile\<close> (and is not \<^verbatim>\<open>None\<close>),
  \<open>create_system\<close> passes every branch and returns \<^verbatim>\<open>None\<close>: it neither raises
  nor returns a system.
\<close>

theorem create_system_falls_through:
  "master self = Some (OtherMaster c) \<longrightarrow> create_system F A P self opts = Inr None"
  by (simp add: create_system_def)

theorem create_system_falls_through_witness:
  "create_system (\<lambda>ff t kw. Inr ''system'') (\<lambda>prmtop kw. Inr ''system'')
      (\<lambda>psf ps kw. Inr ''system'')
      \<lparr>priv_topology = TopologyObj ''topology'',
       priv_positions = QuantityObj [[PyFloat (1::real), PyFloat 2, PyFloat 3]] angstroms,
       priv_velocities = QuantityObj [[PyFloat 0, PyFloat 0, PyFloat 0]] angstroms_per_picosecond,
       priv_box = QuantityObj [[PyFloat 9, PyInt 0, PyInt 0], [PyInt 0, PyFloat 9, PyInt 0],
                              [PyInt 0, PyInt 0, PyFloat 9]] angstroms,
       master = Some (OtherMaster ''GromacsTopFile'') :: (real, string, string) pymaster option,
       priv_path = Some ''a.top''\<rparr>
      (Some [(''nonbondedMethod'', ''PME'')]) =
     (Inr None :: exn + string option)"
  using create_system_falls_through
    [of "\<lparr>priv_topology = TopologyObj ''topology'',
       priv_positions = QuantityObj [[PyFloat (1::real), PyFloat 2, PyFloat 3]] angstroms,
       priv_velocities = QuantityObj [[PyFloat 0, PyFloat 0, PyFloat 0]] angstroms_per_picosecond,
       priv_box = QuantityObj [[PyFloat 9, PyInt 0, PyInt 0], [PyInt 0, PyFloat 9, PyInt 0],
                              [PyInt 0, PyInt 0, PyFloat 9]] angstroms,
       master = Some (OtherMaster ''GromacsTopFile'') :: (real, string, string) pymaster option,
       priv_path = Some ''a.top''\<rparr>"
      "''GromacsTopFile''"
      "\<lambda>ff t kw. Inr ''system''" "\<lambda>prmtop kw. Inr ''system''" "\<lambda>psf ps kw. Inr ''system''"
      "Some [(''nonbondedMethod'', ''PME'')]"]
  by simp

section \<open>Properties of the loaders\<close>

text \<open>
  Claim C4, on the code. \<open>from_rst\<close> never returns a container: it passes no topology
  to the constructor, whose first assignment \<^verbatim>\<open>self.topology = None\<close> raises
  \<^verbatim>\<open>TypeError\<close> in \<open>validate\<close>. So a restart file whose flags \<^verbatim>\<open>hasvels\<close> and
  \<^verbatim>\<open>hasbox\<close> are both false makes the load raise, where the claim says it returns a
  container with these two fields \<^verbatim>\<open>None\<close>.
\<close>

theorem from_rst_never_returns:
  "from_rst parmed_load_file path \<noteq> Inr c \<and>
   from_rst (\<lambda>p. Inr \<lparr>rst_coordinates = [frame], rst_hasvels = False, rst_velocities = [],
                        rst_hasbox = False, rst_cell_lengths = []\<rparr>) path =
     Inl (TypeError ''isinstance() arg 2 must be a type or tuple of types'')"
  by (simp add: from_rst_def getitem_def InputContainer_init_PyNone split: sum.splits)

text \<open>
  Claim C6, on the code. Once \<^verbatim>\<open>CharmmPsfFile(path)\<close> has parsed the file, \<open>from_psf\<close>
  without parameter files raises the \<^verbatim>\<open>ValueError\<close> of the claim. With parameter files
  that load, it does not return the container with the parameter set attached: the
  constructor is called without positions, and assigning \<^verbatim>\<open>None\<close> raises
  \<^verbatim>\<open>TypeError\<close> in \<open>validate\<close>. \<open>from_psf\<close> returns for no input.
\<close>

theorem from_psf_with_parameters_raises:
  "from_psf (\<lambda>p. Inr psf) CharmmParameterSet_new loadParameters path None =
     Inl (ValueError ''ERROR: PSF files require charmm_parameters'') \<and>
   from_psf (\<lambda>p. Inr psf) (\<lambda>files. Inr ps) (\<lambda>obj given. Inr obj) path (Some files) =
     Inl (TypeError ''isinstance() arg 2 must be a type or tuple of types'') \<and>
   from_psf CharmmPsfFile_new CharmmParameterSet_new' loadParameters' path' charmm_parameters
     \<noteq> Inr c"
  by (simp add: from_psf_def SystemHandler_init_PyNone split: sum.splits option.splits)

lemma map_exn_Inr: "map_exn (\<lambda>x. Inr (f x)) xs = Inr (map f xs)"
  by (induction xs) simp_all

lemma map_exn_length: "map_exn f xs = Inr ys \<Longrightarrow> length ys = length xs"
  by (induction xs arbitrary: ys) (auto split: sum.splits)

lemma map_exn_nth: "map_exn f xs = Inr ys \<Longrightarrow> i < length xs \<Longrightarrow> f (xs ! i) = Inr (ys ! i)"
proof (induction xs arbitrary: ys i)
  case Nil
  then show ?case by simp
next
  case (Cons x xs)
  then show ?case by (cases i) (auto split: sum.splits)
qed

text \<open>
  What \<open>process_forcefield\<close> yields when no conversion raises: one entry per file, in
  order; the entry of a file ending in \<^verbatim>\<open>.frcmod\<close> is its conversion, every other
  entry is the file itself.
\<close>

lemma process_forcefield_entries:
  assumes "process_forcefield create_ffxml_file forcefields = Inr files"
  shows "length files = length forcefields"
    and "i < length forcefields \<Longrightarrow> endswith (forcefields ! i) ''.frcmod'' \<Longrightarrow>
           create_ffxml_file (forcefields ! i) = Inr (files ! i)"
    and "i < length forcefields \<Longrightarrow> \<not> endswith (forcefields ! i) ''.frcmod'' \<Longrightarrow>
           files ! i = forcefields ! i"
proof -
  let ?f = "\<lambda>ff. if endswith ff ''.frcmod'' then create_ffxml_file ff else Inr ff"
  from assms have m: "map_exn ?f forcefields = Inr files"
    by (simp add: process_forcefield_def)
  from map_exn_length [OF m] show "length files = length forcefields" .
  show "create_ffxml_file (forcefields ! i) = Inr (files ! i)"
    if "i < length forcefields" "endswith (forcefields ! i) ''.frcmod''"
    using map_exn_nth [OF m that(1)] that(2) by simp
  show "files ! i = forcefields ! i"
    if "i < length forcefields" "\<not> endswith (forcefields ! i) ''.frcmod''"
    using map_exn_nth [OF m that(1)] that(2) by simp
qed

text \<open>
  Leaving the force fields out, or passing an empty list, is passing the default list.
\<close>

lemma from_pdb_default_list:
  "from_pdb PDBFile_new FORCEFIELDS ForceField_new create_ffxml_file path None =
   from_pdb PDBFile_new FORCEFIELDS ForceField_new create_ffxml_file path (Some FORCEFIELDS)"
  "from_pdb PDBFile_new FORCEFIELDS ForceField_new create_ffxml_file path (Some []) =
   from_pdb PDBFile_new FORCEFIELDS ForceField_new create_ffxml_file path (Some FORCEFIELDS)"
  by (simp_all add: from_pdb_def Let_def split: sum.splits)

text \<open>
  Claim C7, on the code. A \<^verbatim>\<open>PDBFile\<close> object has no attribute \<^verbatim>\<open>velocities\<close>, so
  \<open>from_pdb\<close> passes \<^verbatim>\<open>velocities=None\<close> to the constructor, where \<open>validate\<close>
  raises \<^verbatim>\<open>TypeError\<close>: with the force fields left out (or given), and every external
  call succeeding, \<open>from_pdb\<close> raises, where the claim says it does not.
\<close>

theorem from_pdb_without_velocities_raises:
  "from_pdb (\<lambda>p. Inr (pdb\<lparr>pdb_velocities := None\<rparr>)) FORCEFIELDS (\<lambda>files. Inr ff)
     (\<lambda>frcmod. Inr (frcmod @ ''.ffxml'')) path forcefields =
     Inl (TypeError ''isinstance() arg 2 must be a type or tuple of types'')"
proof -
  have files: "process_forcefield (\<lambda>frcmod. Inr (frcmod @ ''.ffxml'')) xs =
      Inr (map (\<lambda>f. if endswith f ''.frcmod'' then f @ ''.ffxml'' else f) xs)" for xs
    unfolding process_forcefield_def
    using map_exn_Inr [of "\<lambda>f. if endswith f ''.frcmod'' then f @ ''.ffxml'' else f" xs]
    by (simp add: if_distrib [of Inr] cong: if_cong)
  show ?thesis
    by (simp add: from_pdb_def files SystemHandler_init_PyNone Let_def)
qed

section \<open>Properties of \<^verbatim>\<open>random_string\<close>\<close>

lemma lookup_global_choice: "lookup_global ''choice'' = Inl (NameError ''choice'')"
  by (simp add: lookup_global_def module_globals_def builtin_names_def)

text \<open>
  Claim C9 as stated fails: for the length 0 no element is asked of the generator, the
  undefined names are never read, and the empty string is returned.
\<close>

theorem random_string_zero_returns:
  "random_string (\<lambda>f x. Inr ''a'') 0 = Inr []"
  by (simp add: random_string_def)

text \<open>
  Claim C9, amended. For every length of at least 1, \<open>random_string\<close> raises
  \<^verbatim>\<open>NameError\<close> for the name \<^verbatim>\<open>choice\<close>, which the module never binds; for a length
  of 0 or less it returns the empty string.
\<close>

theorem random_string_NameError:
  "(1 \<le> len \<longrightarrow> random_string call len = Inl (NameError ''choice'')) \<and>
   (len' \<le> 0 \<longrightarrow> random_string call len' = Inr [])"
proof (intro conjI impI)
  assume "1 \<le> len"
  then obtain n where "nat len = Suc n" by (cases "nat len") auto
  then show "random_string call len = Inl (NameError ''choice'')"
    by (simp add: random_string_def lookup_global_choice)
next
  assume "len' \<le> 0"
  then show "random_string call len' = Inr []" by (simp add: random_string_def)
qed

theorem random_string_NameError_witness:
  "random_string (\<lambda>f x. Inr ''a'') 5 = Inl (NameError ''choice'') \<and>
   random_string (\<lambda>f x. Inr ''a'') (- 2) = Inr []"
  using random_string_NameError [of 5 "\<lambda>f x. Inr ''a''" "- 2"]
  by simp

section \<open>Properties of \<^verbatim>\<open>load\<close>\<close>

lemma splitext_examples:
  "splitext ''topology.pdb'' = (''topology'', ''.pdb'')"
  "splitext ''topology.xyz'' = (''topology'', ''.xyz'')"
  by (simp_all add: splitext_def rfind_def)

text \<open>
  The tables and the \<^verbatim>\<open>except\<close> clauses, for a key that is given: each listed key
  gives the documented handler and any other key raises \<^verbatim>\<open>KeyError\<close>; the expression
  \<^verbatim>\<open>cls._loaders(key)(path, **kwargs)\<close> calls the handler of a listed key with the path
  and the options, and the \<^verbatim>\<open>except\<close> clause turns the \<^verbatim>\<open>KeyError\<close> of any other
  key into \<^verbatim>\<open>NotImplementedError\<close> naming the format.
\<close>

lemma loaders_tables:
  "loaders SystemHandler_cls ''pdb'' = Inr SystemHandler_from_pdb \<and>
   loaders SystemHandler_cls ''prmtop'' = Inr SystemHandler_from_prmtop \<and>
   loaders SystemHandler_cls ''top'' = Inr SystemHandler_from_prmtop \<and>
   loaders SystemHandler_cls ''psf'' = Inr SystemHandler_from_psf \<and>
   loaders Positions_cls ''pdb'' = Inr Positions_from_pdb \<and>
   loaders Positions_cls ''coor'' = Inr Positions_from_coor \<and>
   loaders Positions_cls ''inpcrd'' = Inr Positions_from_inpcrd \<and>
   loaders Positions_cls ''crd'' = Inr Positions_from_inpcrd \<and>
   loaders Velocities_cls ''vel'' = Inr Velocities_from_vel \<and>
   loaders BoxVectors_cls ''xsc'' = Inr BoxVectors_from_xsc \<and>
   loaders Restart_cls ''xml'' = Inr Restart_from_xml \<and>
   loaders Restart_cls ''rst'' = Inr Restart_from_rst \<and>
   loaders Restart_cls ''restart'' = Inr Restart_from_rst \<and>
   (key \<notin> {''pdb'', ''prmtop'', ''top'', ''psf''} \<longrightarrow>
      loaders SystemHandler_cls key = Inl (KeyError key)) \<and>
   (key \<notin> {''pdb'', ''coor'', ''inpcrd'', ''crd''} \<longrightarrow>
      loaders Positions_cls key = Inl (KeyError key)) \<and>
   (key \<noteq> ''vel'' \<longrightarrow> loaders Velocities_cls key = Inl (KeyError key)) \<and>
   (key \<noteq> ''xsc'' \<longrightarrow> loaders BoxVectors_cls key = Inl (KeyError key)) \<and>
   (key \<notin> {''xml'', ''rst'', ''restart''} \<longrightarrow>
      loaders Restart_cls key = Inl (KeyError key)) \<and>
   (loaders cls key' = Inr h \<longrightarrow>
      lookup_and_call call cls key' path kwargs = call h path kwargs) \<and>
   (loaders cls' key'' = Inl (KeyError key'') \<longrightarrow>
      load_except ext path' (lookup_and_call call cls' key'' path' kwargs) =
      Inl (NotImplementedError (''Unknown loader for format '' @ ext)))"
  by (simp add: dict_getitem_def lookup_and_call_def load_except_def)

text \<open>
  Claim C1, on the code. Every call of \<open>load\<close>, for every class, path and options,
  raises \<^verbatim>\<open>AttributeError\<close>: the key is computed with \<^verbatim>\<open>ext.lsplit('.')\<close>, a
  \<^verbatim>\<open>str\<close> has no attribute \<^verbatim>\<open>lsplit\<close>, and neither \<^verbatim>\<open>except\<close> clause catches
  the exception. So for the supported extension \<^verbatim>\<open>pdb\<close> no handler is called, and for
  the unsupported \<^verbatim>\<open>xyz\<close> the exception is not \<^verbatim>\<open>NotImplementedError\<close>, where the
  claim says the documented handler is invoked, respectively \<^verbatim>\<open>NotImplementedError\<close>
  is raised.
\<close>

theorem load_raises_AttributeError:
  "load call cls path kwargs = Inl (AttributeError ''lsplit'') \<and>
   load (\<lambda>h p k. Inr h) SystemHandler_cls ''topology.pdb'' () = Inl (AttributeError ''lsplit'') \<and>
   load (\<lambda>h p k. Inr h) SystemHandler_cls ''topology.xyz'' () = Inl (AttributeError ''lsplit'')"
  by (simp add: load_def str_attribute_def load_except_def split_beta)

section \<open>Properties of \<^verbatim>\<open>BoxVectors.from_xsc\<close>\<close>

lemma split_example:
  "split ''0 10.0 20.0 30.0'' = [''0'', ''10.0'', ''20.0'', ''30.0'']"
  by (simp add: split_def isspace_def)

lemma valid_field_names_example: "valid_field_names [''step'', ''a_x'', ''b_y'', ''c_z'']"
  by (simp add: valid_field_names_def isidentifier_def isalpha_def isdigit_def kwlist_def)

text \<open>
  Claim C5. \<open>from_xsc\<close> reads a record of two lines, the header that names the fields
  and the line of numbers: they are the second and the third line of the file, and the
  header's names are its words after the first one (the marker \<^verbatim>\<open>#$LABELS\<close> of an XSC
  file). It binds the names to the numbers by position and returns, in angstroms, the
  3x3 matrix with the fields \<^verbatim>\<open>a_x\<close>, \<^verbatim>\<open>b_y\<close>, \<^verbatim>\<open>c_z\<close> on the diagonal and the
  integer 0 elsewhere. In particular the header \<^verbatim>\<open>step a_x b_y c_z\<close> with the numbers
  \<^verbatim>\<open>0 10.0 20.0 30.0\<close> gives the diagonal \<^verbatim>\<open>float('10.0')\<close>, \<^verbatim>\<open>float('20.0')\<close>,
  \<^verbatim>\<open>float('30.0')\<close>.
\<close>

theorem from_xsc_diagonal:
  "(readlines path = Inr lines \<and> 2 < length lines \<and>
    drop 1 (split (lines ! 1)) = names \<and> valid_field_names names \<and>
    map_exn float (split (lines ! 2)) = Inr vals \<and> length vals = length names \<and>
    map_of (zip names vals) ''a_x'' = Some a \<and>
    map_of (zip names vals) ''b_y'' = Some b \<and>
    map_of (zip names vals) ''c_z'' = Some c \<longrightarrow>
    from_xsc readlines float path =
      Inr (QuantityObj [[PyFloat a, PyInt 0, PyInt 0],
                        [PyInt 0, PyFloat b, PyInt 0],
                        [PyInt 0, PyInt 0, PyFloat c]] angstroms)) \<and>
   (readlines' path' = Inr [first, header, ''0 10.0 20.0 30.0''] \<and>
    drop 1 (split header) = [''step'', ''a_x'', ''b_y'', ''c_z''] \<and>
    float' ''0'' = Inr f0 \<and> float' ''10.0'' = Inr f10 \<and>
    float' ''20.0'' = Inr f20 \<and> float' ''30.0'' = Inr f30 \<longrightarrow>
    from_xsc readlines' float' path' =
      Inr (QuantityObj [[PyFloat f10, PyInt 0, PyInt 0],
                        [PyInt 0, PyFloat f20, PyInt 0],
                        [PyInt 0, PyInt 0, PyFloat f30]] angstroms))"
proof (intro conjI impI)
  assume "readlines path = Inr lines \<and> 2 < length lines \<and>
    drop 1 (split (lines ! 1)) = names \<and> valid_field_names names \<and>
    map_exn float (split (lines ! 2)) = Inr vals \<and> length vals = length names \<and>
    map_of (zip names vals) ''a_x'' = Some a \<and>
    map_of (zip names vals) ''b_y'' = Some b \<and>
    map_of (zip names vals) ''c_z'' = Some c"
  then show "from_xsc readlines float path =
      Inr (QuantityObj [[PyFloat a, PyInt 0, PyInt 0],
                        [PyInt 0, PyFloat b, PyInt 0],
                        [PyInt 0, PyInt 0, PyFloat c]] angstroms)"
    by (simp add: from_xsc_def parse_def getitem_def tuple_field_def)
next
  assume "readlines' path' = Inr [first, header, ''0 10.0 20.0 30.0''] \<and>
    drop 1 (split header) = [''step'', ''a_x'', ''b_y'', ''c_z''] \<and>
    float' ''0'' = Inr f0 \<and> float' ''10.0'' = Inr f10 \<and>
    float' ''20.0'' = Inr f20 \<and> float' ''30.0'' = Inr f30"
  then show "from_xsc readlines' float' path' =
      Inr (QuantityObj [[PyFloat f10, PyInt 0, PyInt 0],
                        [PyInt 0, PyFloat f20, PyInt 0],
                        [PyInt 0, PyInt 0, PyFloat f30]] angstroms)"
    by (simp add: from_xsc_def parse_def getitem_def tuple_field_def split_example
        valid_field_names_example)
qed

theorem from_xsc_diagonal_witness:
  "split (''#$LABELS step a_x b_y c_z'' @ [CHR 0x0A]) =
     [''#$LABELS'', ''step'', ''a_x'', ''b_y'', ''c_z''] \<and>
   from_xsc
     (\<lambda>p. Inr [''# NAMD extended system configuration output file'' @ [CHR 0x0A],
               ''#$LABELS step a_x b_y c_z'' @ [CHR 0x0A],
               ''0 10.0 20.0 30.0''])
     (\<lambda>s. if s = ''0'' then Inr 0 else if s = ''10.0'' then Inr 10
           else if s = ''20.0'' then Inr 20 else if s = ''30.0'' then Inr 30
           else Inl (ValueError s))
     ''box.xsc'' =
     Inr (QuantityObj [[PyFloat (10::real), PyInt 0, PyInt 0],
                       [PyInt 0, PyFloat 20, PyInt 0],
                       [PyInt 0, PyInt 0, PyFloat 30]] angstroms)"
proof -
  let ?lines = "[''# NAMD extended system configuration output file'' @ [CHR 0x0A],
               ''#$LABELS step a_x b_y c_z'' @ [CHR 0x0A],
               ''0 10.0 20.0 30.0'']"
  let ?float = "\<lambda>s. if s = ''0'' then Inr 0 else if s = ''10.0'' then Inr 10
           else if s = ''20.0'' then Inr 20 else if s = ''30.0'' then Inr 30
           else Inl (ValueError s) :: exn + real"
  have header: "split (''#$LABELS step a_x b_y c_z'' @ [CHR 0x0A]) =
     [''#$LABELS'', ''step'', ''a_x'', ''b_y'', ''c_z'']"
    by (simp add: split_def isspace_def)
  note t = from_xsc_diagonal
    [of "\<lambda>p. Inr ?lines" "''box.xsc''" ?lines "[''step'', ''a_x'', ''b_y'', ''c_z'']"
        ?float "[0, 10, 20, 30]" 10 20 30
        "\<lambda>p. Inr ?lines" "''box.xsc''"
        "''# NAMD extended system configuration output file'' @ [CHR 0x0A]"
        "''#$LABELS step a_x b_y c_z'' @ [CHR 0x0A]" ?float 0 10 20 30]
  from t [THEN conjunct1] header
  have general: "from_xsc (\<lambda>p. Inr ?lines) ?float ''box.xsc'' =
     Inr (QuantityObj [[PyFloat (10::real), PyInt 0, PyInt 0],
                       [PyInt 0, PyFloat 20, PyInt 0],
                       [PyInt 0, PyInt 0, PyFloat 30]] angstroms)"
    by (simp add: split_example valid_field_names_example)
  from t [THEN conjunct2] header
  have particular: "from_xsc (\<lambda>p. Inr ?lines) ?float ''box.xsc'' =
     Inr (QuantityObj [[PyFloat (10::real), PyInt 0, PyInt 0],
                       [PyInt 0, PyFloat 20, PyInt 0],
                       [PyInt 0, PyInt 0, PyFloat 30]] angstroms)"
    by simp
  from header general particular show ?thesis by simp
qed

end
